theory Spec2Isabelle
  imports Complex_Main "HOL-Library.Word" "HOL-Library.Char_ord" "HOL-Library.List_Lexorder"
    "HOL-Library.AList"
begin

section \<open>Python values of the network\<close>

text \<open>
  The two modules \<^verbatim>\<open>layer_inspector.py\<close> and \<^verbatim>\<open>feature_visualizer.py\<close> work on a
  PyTorch model through reflection (\<^verbatim>\<open>hasattr\<close>, \<^verbatim>\<open>getattr\<close>, \<^verbatim>\<open>isinstance\<close>,
  \<^verbatim>\<open>named_modules\<close>). The model is therefore embedded as the object graph those calls
  see: an object has a kind (what \<^verbatim>\<open>isinstance\<close> and the intrinsic data of the object
  answer) and the list of its attributes (the names for which \<^verbatim>\<open>hasattr\<close> is true, with
  their values). A module carries its class, its \<^verbatim>\<open>training\<close> flag and the ids of the
  forward hooks registered on it; a tensor carries its role, shape, \<^verbatim>\<open>requires_grad\<close>
  flag and device. The graph is a tree: two paths never reach the same object.
\<close>

datatype error =
    ValueError string
  | IndexError
  | RuntimeError
  | AttributeError
  | TypeError
  | ZeroDivisionError
  | OtherException string

datatype cls = Linear | Conv2d | OtherModule

datatype role = Param | Buffer | PlainTensor

datatype kind =
    ModuleK cls bool "nat list"
  | TensorK role "nat list" bool string
  | IntK int
  | OtherK

datatype pyobj = PyNone | Obj kind "(string \<times> pyobj) list"

fun attrs :: "pyobj \<Rightarrow> (string \<times> pyobj) list" where
  "attrs PyNone = []"
| "attrs (Obj k as) = as"

text \<open>\<^verbatim>\<open>hasattr(o, n)\<close> is \<open>getattr_opt o n \<noteq> None\<close>; \<^verbatim>\<open>getattr(o, n)\<close> is its value.\<close>

definition getattr_opt :: "pyobj \<Rightarrow> string \<Rightarrow> pyobj option" where
  "getattr_opt ob n = map_of (attrs ob) n"

fun is_module :: "pyobj \<Rightarrow> bool" where
  "is_module (Obj (ModuleK c t hs) as) = True"
| "is_module x = False"

fun isinstance :: "pyobj \<Rightarrow> cls \<Rightarrow> bool" where
  "isinstance (Obj (ModuleK c t hs) as) c' = (c = c')"
| "isinstance x c' = False"

fun hooks_of :: "pyobj \<Rightarrow> nat list" where
  "hooks_of (Obj (ModuleK c t hs) as) = hs"
| "hooks_of x = []"

text \<open>\<^verbatim>\<open>x.shape\<close>: only tensors have one.\<close>

fun shape_attr :: "pyobj \<Rightarrow> error + nat list" where
  "shape_attr (Obj (TensorK r sh g d) as) = Inr sh"
| "shape_attr x = Inl AttributeError"

definition py_int :: "int \<Rightarrow> pyobj" where
  "py_int n = Obj (IntK n) []"

text \<open>\<^verbatim>\<open>x == 0\<close> for the values that occur as \<^verbatim>\<open>num_neurons\<close>.\<close>

fun py_eq_zero :: "pyobj \<Rightarrow> bool" where
  "py_eq_zero (Obj (IntK n) as) = (n = 0)"
| "py_eq_zero x = False"

text \<open>The argument of \<^verbatim>\<open>range\<close> and \<^verbatim>\<open>min(_, 768)\<close>: an int, or \<^verbatim>\<open>TypeError\<close>.\<close>

fun as_index :: "pyobj \<Rightarrow> error + int" where
  "as_index (Obj (IntK n) as) = Inr n"
| "as_index x = Inl TypeError"

subsection \<open>Strings\<close>

text \<open>\<^verbatim>\<open>s.split(c)\<close>: never empty, \<^verbatim>\<open>"".split(".") == [""]\<close>.\<close>

fun split_on :: "char \<Rightarrow> string \<Rightarrow> string list" where
  "split_on c [] = [[]]"
| "split_on c (x # xs) =
     (if x = c then [] # split_on c xs
      else (case split_on c xs of p # ps \<Rightarrow> (x # p) # ps | [] \<Rightarrow> [[x]]))"

definition digit :: "nat \<Rightarrow> char" where
  "digit d = ''0123456789'' ! (d mod 10)"

text \<open>The decimal numeral of \<^verbatim>\<open>f"{i}"\<close>.\<close>

fun str_nat :: "nat \<Rightarrow> string" where
  "str_nat n = (if n < 10 then [digit n] else str_nat (n div 10) @ [digit (n mod 10)])"

declare str_nat.simps [simp del]

section \<open>Layer Directory: \<^verbatim>\<open>layer_inspector.py\<close>\<close>

text \<open>
  \<^verbatim>\<open>nn.Module.named_modules(prefix)\<close>: the module itself under \<open>prefix\<close>, then every
  child module (an attribute whose value is a module; \<^verbatim>\<open>None\<close> children are skipped)
  under \<open>prefix.name\<close>, recursively.
\<close>

primrec named_modules :: "pyobj \<Rightarrow> string \<Rightarrow> (string \<times> pyobj) list" where
  "named_modules PyNone prefix = []"
| "named_modules (Obj k as) prefix =
     (prefix, Obj k as) #
       concat (map (\<lambda>(name, rec). rec (prefix @ (if prefix = [] then [] else ''.'') @ name))
                 (map (map_prod id (\<lambda>child. if is_module child then named_modules child
                                              else (\<lambda>_. []))) as))"

record layer_inspector =
  insp_model :: pyobj
  model_name :: string
  layers_info :: "(string \<times> pyobj) list"

definition startswith_underscore :: "string \<Rightarrow> bool" where
  "startswith_underscore name = (case name of [] \<Rightarrow> False | c # cs \<Rightarrow> c = CHR ''_'')"

text \<open>
  \<^verbatim>\<open>_extract_layers\<close>: the dictionary is an association list in insertion order, a
  repeated key overwrites in place. \<^verbatim>\<open>self.model.visual.named_modules()\<close> raises
  \<^verbatim>\<open>AttributeError\<close> when there is no \<^verbatim>\<open>visual\<close> attribute or it is not a module.
\<close>

definition extract_layers :: "pyobj \<Rightarrow> error + (string \<times> pyobj) list" where
  "extract_layers m =
     (case getattr_opt m ''visual'' of
        None \<Rightarrow> Inl AttributeError
      | Some v \<Rightarrow>
          if \<not> is_module v then Inl AttributeError
          else Inr (fold (\<lambda>(name, module) layers.
                            if name \<noteq> [] \<and> \<not> startswith_underscore name
                            then AList.update (''visual.'' @ name) module layers
                            else layers)
                         (named_modules v []) []))"

definition init_inspector :: "pyobj \<Rightarrow> string \<Rightarrow> error + layer_inspector" where
  "init_inspector m mname =
     (case extract_layers m of
        Inl e \<Rightarrow> Inl e
      | Inr ls \<Rightarrow> Inr \<lparr>insp_model = m, model_name = mname, layers_info = ls\<rparr>)"

definition get_layer_names :: "layer_inspector \<Rightarrow> string list" where
  "get_layer_names insp = sort (map fst (layers_info insp))"

definition get_layer :: "layer_inspector \<Rightarrow> string \<Rightarrow> pyobj option" where
  "get_layer insp layer_name = map_of (layers_info insp) layer_name"

text \<open>
  The first half of \<^verbatim>\<open>get_neuron_names\<close>: \<^verbatim>\<open>out_features\<close> when the layer has that
  attribute, otherwise the leading dimension of \<^verbatim>\<open>weight\<close> when the layer has that
  attribute and its shape is not empty, otherwise \<open>0\<close>. \<^verbatim>\<open>layer.weight.shape\<close> raises
  when \<^verbatim>\<open>weight\<close> is not a tensor.
\<close>

definition num_neurons_of :: "pyobj \<Rightarrow> error + pyobj" where
  "num_neurons_of layer =
     (case getattr_opt layer ''out_features'' of
        Some v \<Rightarrow> Inr v
      | None \<Rightarrow>
          (case getattr_opt layer ''weight'' of
             None \<Rightarrow> Inr (py_int 0)
           | Some w \<Rightarrow>
               (case shape_attr w of
                  Inl e \<Rightarrow> Inl e
                | Inr sh \<Rightarrow> if length sh > 0 then Inr (py_int (int (sh ! 0)))
                            else Inr (py_int 0))))"

definition unit_names :: "string \<Rightarrow> int \<Rightarrow> string list" where
  "unit_names category n = map (\<lambda>i. category @ ''_'' @ str_nat i) [0..<nat n]"

definition get_neuron_names :: "layer_inspector \<Rightarrow> string \<Rightarrow> error + string list" where
  "get_neuron_names insp layer_name =
     (case get_layer insp layer_name of
        None \<Rightarrow> Inr []
      | Some layer \<Rightarrow>
          if layer = PyNone then Inr []
          else
            (case num_neurons_of layer of
               Inl e \<Rightarrow> Inl e
             | Inr num_neurons \<Rightarrow>
                 if py_eq_zero num_neurons then Inr []
                 else if isinstance layer Linear then
                   (case as_index num_neurons of
                      Inl e \<Rightarrow> Inl e
                    | Inr n \<Rightarrow> Inr (unit_names ''neuron'' n))
                 else if isinstance layer Conv2d then
                   (case as_index (case getattr_opt layer ''out_channels'' of
                                     Some c \<Rightarrow> c | None \<Rightarrow> num_neurons) of
                      Inl e \<Rightarrow> Inl e
                    | Inr channels \<Rightarrow> Inr (unit_names ''channel'' channels))
                 else
                   (case as_index num_neurons of
                      Inl e \<Rightarrow> Inl e
                    | Inr n \<Rightarrow> Inr (unit_names ''unit'' (min n 768)))))"

section \<open>Tensors at run time\<close>

text \<open>
  A run-time tensor is its shape, its entries in row-major order and its
  \<^verbatim>\<open>requires_grad\<close> flag (whether autograd can differentiate it back to a leaf).
  Entries are finite numbers, taken as rationals with exact arithmetic; the one
  non-finite value that the code below creates by itself, the mean of no elements, is
  \<open>NaN\<close> in a scalar result.
\<close>

record tensor =
  shape :: "nat list"
  vals :: "rat list"
  requires_grad :: bool

datatype fval = Fin rat | NaN

record scalar =
  sc_value :: fval
  sc_grad :: bool

text \<open>\<^verbatim>\<open>t.mean()\<close> over all entries.\<close>

definition mean :: "rat list \<Rightarrow> fval" where
  "mean xs = (if xs = [] then NaN else Fin (sum_list xs / of_nat (length xs)))"

fun fin_of :: "fval \<Rightarrow> rat option" where
  "fin_of (Fin x) = Some x"
| "fin_of NaN = None"

definition mean_f :: "fval list \<Rightarrow> fval" where
  "mean_f xs = (case those (map fin_of xs) of None \<Rightarrow> NaN | Some rs \<Rightarrow> mean rs)"

definition mean_all :: "tensor \<Rightarrow> scalar" where
  "mean_all t = \<lparr>sc_value = mean (vals t), sc_grad = requires_grad t\<rparr>"

text \<open>
  For a tensor of shape \<open>[B, C, d\<^sub>2, \<dots>]\<close>, entry \<open>(b, c, k)\<close> lies at
  \<open>(b * C + c) * inner + k\<close>, where \<open>inner\<close> is the product of the trailing
  dimensions. \<open>index_dim1 a i\<close> is \<^verbatim>\<open>a[:, i, :, :]\<close> (rank 4) and \<^verbatim>\<open>a[:, i]\<close> (rank 2):
  a negative index counts from the end, an index outside \<open>[-C, C)\<close> raises.
\<close>

definition inner_size :: "tensor \<Rightarrow> nat" where
  "inner_size a = prod_list (drop 2 (shape a))"

definition index_dim1 :: "tensor \<Rightarrow> int \<Rightarrow> error + tensor" where
  "index_dim1 a i =
     (let B = shape a ! 0; C = shape a ! 1; inner = inner_size a;
          j = (if i < 0 then i + int C else i)
      in if 0 \<le> j \<and> j < int C
         then Inr \<lparr>shape = B # drop 2 (shape a),
                   vals = concat (map (\<lambda>b. map (\<lambda>k. vals a ! ((b * C + nat j) * inner + k))
                                                [0..<inner]) [0..<B]),
                   requires_grad = requires_grad a\<rparr>
         else Inl IndexError)"

text \<open>\<^verbatim>\<open>a.mean(dim=1).mean()\<close>: the mean over all \<open>(b, k)\<close> of the means over \<open>c\<close>.\<close>

definition mean_dim1_mean :: "tensor \<Rightarrow> scalar" where
  "mean_dim1_mean a =
     (let B = shape a ! 0; C = shape a ! 1; inner = inner_size a
      in \<lparr>sc_value =
            mean_f (concat (map (\<lambda>b. map (\<lambda>k. mean (map (\<lambda>c. vals a ! ((b * C + c) * inner + k))
                                                          [0..<C]))
                                          [0..<inner]) [0..<B])),
          sc_grad = requires_grad a\<rparr>)"

section \<open>The tap: \<^verbatim>\<open>NeuronActivationHook\<close>\<close>

text \<open>
  What a forward hook receives as \<^verbatim>\<open>output\<close>: a tensor, or something that is not one
  (a tuple, as \<^verbatim>\<open>nn.MultiheadAttention\<close> returns), which has no \<^verbatim>\<open>shape\<close>.
\<close>

datatype captured = TensorOut tensor | NonTensorOut

record hook =
  neuron_index :: "int option"
  activation :: "captured option"

definition hook_init :: "int option \<Rightarrow> hook" where
  "hook_init idx = \<lparr>neuron_index = idx, activation = None\<rparr>"

text \<open>\<^verbatim>\<open>__call__(module, input, output)\<close>.\<close>

definition hook_call :: "hook \<Rightarrow> captured \<Rightarrow> hook" where
  "hook_call h out = h\<lparr>activation := Some out\<rparr>"

definition get_activation_value :: "hook \<Rightarrow> error + scalar" where
  "get_activation_value h =
     (case activation h of
        None \<Rightarrow> Inr \<lparr>sc_value = Fin 0, sc_grad = False\<rparr>
      | Some NonTensorOut \<Rightarrow> Inl AttributeError
      | Some (TensorOut a) \<Rightarrow>
          if length (shape a) = 4 then
            (case neuron_index h of
               Some i \<Rightarrow> (case index_dim1 a i of Inl e \<Rightarrow> Inl e | Inr a' \<Rightarrow> Inr (mean_all a'))
             | None \<Rightarrow> Inr (mean_dim1_mean a))
          else if length (shape a) = 2 then
            (case neuron_index h of
               Some i \<Rightarrow> (case index_dim1 a i of Inl e \<Rightarrow> Inl e | Inr a' \<Rightarrow> Inr (mean_all a'))
             | None \<Rightarrow> Inr (mean_dim1_mean a))
          else Inr (mean_all a))"

section \<open>Activation-Maximization Engine: \<^verbatim>\<open>FeatureVisualizer\<close>\<close>

record feature_visualizer =
  model :: pyobj
  device :: string

subsection \<open>Construction\<close>

text \<open>
  \<^verbatim>\<open>model.to(device)\<close> moves the parameters and buffers of the module and of every
  descendant module; \<^verbatim>\<open>model.eval()\<close> clears the \<^verbatim>\<open>training\<close> flag of the module and
  of every descendant; the loop over \<^verbatim>\<open>model.parameters()\<close> clears \<^verbatim>\<open>requires_grad\<close>
  of every parameter. All three work on the caller's object in place.
\<close>

primrec to_device :: "pyobj \<Rightarrow> string \<Rightarrow> pyobj" where
  "to_device PyNone dev = PyNone"
| "to_device (Obj k as) dev =
     (case k of
        ModuleK c t hs \<Rightarrow> Obj k (map (map_prod id (\<lambda>child. to_device child dev)) as)
      | TensorK r sh g d \<Rightarrow> if r = Param \<or> r = Buffer then Obj (TensorK r sh g dev) as
                            else Obj k as
      | _ \<Rightarrow> Obj k as)"

primrec eval_mode :: "pyobj \<Rightarrow> pyobj" where
  "eval_mode PyNone = PyNone"
| "eval_mode (Obj k as) =
     (case k of
        ModuleK c t hs \<Rightarrow> Obj (ModuleK c False hs) (map (map_prod id eval_mode) as)
      | _ \<Rightarrow> Obj k as)"

primrec freeze_params :: "pyobj \<Rightarrow> pyobj" where
  "freeze_params PyNone = PyNone"
| "freeze_params (Obj k as) =
     (case k of
        ModuleK c t hs \<Rightarrow> Obj k (map (map_prod id freeze_params) as)
      | TensorK r sh g d \<Rightarrow> if r = Param then Obj (TensorK r sh False d) as else Obj k as
      | _ \<Rightarrow> Obj k as)"

definition init_visualizer :: "pyobj \<Rightarrow> string \<Rightarrow> feature_visualizer" where
  "init_visualizer m dev =
     \<lparr>model = freeze_params (eval_mode (to_device m dev)), device = dev\<rparr>"

text \<open>
  What construction establishes: every module reached through module attributes is in
  evaluation mode, and none of their parameters requires a gradient.
\<close>

primrec eval_frozen :: "pyobj \<Rightarrow> bool" where
  "eval_frozen PyNone = True"
| "eval_frozen (Obj k as) =
     (case k of
        ModuleK c t hs \<Rightarrow> \<not> t \<and> list_all snd (map (map_prod id eval_frozen) as)
      | TensorK r sh g d \<Rightarrow> r = Param \<longrightarrow> \<not> g
      | _ \<Rightarrow> True)"

definition clip_mean :: "rat list" where
  "clip_mean = [0.48145466, 0.4578275, 0.40821073]"

definition clip_std :: "rat list" where
  "clip_std = [0.26862954, 0.26130258, 0.27577711]"

subsection \<open>Resolving a layer\<close>

fun resolve_parts :: "pyobj \<Rightarrow> string list \<Rightarrow> pyobj" where
  "resolve_parts m [] = m"
| "resolve_parts m (part # parts) =
     (case getattr_opt m part of
        Some m' \<Rightarrow> resolve_parts m' parts
      | None \<Rightarrow> PyNone)"

text \<open>\<^verbatim>\<open>_get_layer_by_name\<close>; \<open>PyNone\<close> is Python's \<^verbatim>\<open>None\<close>.\<close>

definition get_layer_by_name :: "feature_visualizer \<Rightarrow> string \<Rightarrow> pyobj" where
  "get_layer_by_name self layer_name = resolve_parts (model self) (split_on CHR ''.'' layer_name)"

subsection \<open>Installing and removing the tap\<close>

text \<open>
  \<^verbatim>\<open>register_forward_hook\<close> stores the hook in the module's dictionary of forward hooks
  under the id of a new handle; \<^verbatim>\<open>handle.remove()\<close> deletes that key when it is there.
  The module is mutated in place: in the tree, the object at the resolved path is
  replaced.
\<close>

fun add_hook :: "nat \<Rightarrow> pyobj \<Rightarrow> pyobj" where
  "add_hook hid (Obj (ModuleK c t hs) as) =
     Obj (ModuleK c t (if hid \<in> set hs then hs else hs @ [hid])) as"
| "add_hook hid x = x"

fun remove_hook :: "nat \<Rightarrow> pyobj \<Rightarrow> pyobj" where
  "remove_hook hid (Obj (ModuleK c t hs) as) = Obj (ModuleK c t (removeAll hid hs)) as"
| "remove_hook hid x = x"

primrec update_at :: "string list \<Rightarrow> (pyobj \<Rightarrow> pyobj) \<Rightarrow> pyobj \<Rightarrow> pyobj" where
  "update_at [] f = f"
| "update_at (part # parts) f =
     (\<lambda>m. case m of
             PyNone \<Rightarrow> PyNone
           | Obj k as \<Rightarrow> Obj k (AList.map_entry part (update_at parts f) as))"

subsection \<open>What the engine calls but does not define\<close>

text \<open>
  The library calls of a run are parameters of the embedding:
  \<^item> \<open>randn_image seed image_size\<close>: the optional seeding
    (\<^verbatim>\<open>torch.manual_seed\<close>, \<^verbatim>\<open>np.random.seed\<close>) followed by
    \<^verbatim>\<open>torch.randn(1, 3, image_size, image_size)\<close>; the entries, or the exception raised;
  \<^item> \<open>adam_init lr\<close>: \<^verbatim>\<open>torch.optim.Adam([image], lr=lr)\<close>; the exception that its checks
    of the arguments raise, if any;
  \<^item> \<open>visual_forward layer_name x\<close>: \<^verbatim>\<open>self.model.visual(x)\<close> inside
    \<^verbatim>\<open>torch.no_grad()\<close> with the tap on \<open>layer_name\<close>: the exception the forward pass
    raises, or the output the tap was called with last (\<open>None\<close> when the layer was not
    executed). The captured tensor comes with its \<^verbatim>\<open>requires_grad\<close> flag; a tensor
    computed inside \<^verbatim>\<open>torch.no_grad()\<close> has it cleared;
  \<^item> \<open>optimizer_step lr iteration image\<close>: the entries of the image after
    \<^verbatim>\<open>optimizer.step()\<close> (Adam on the gradient that \<^verbatim>\<open>loss.backward()\<close> left);
  \<^item> \<open>total_variation image\<close> and \<open>apply_blur image\<close>: the two helper methods, which are
    calls of \<^verbatim>\<open>torch.mean\<close>, \<^verbatim>\<open>torch.abs\<close> and \<^verbatim>\<open>F.avg_pool2d\<close>;
  \<^item> \<open>image_fromarray arr\<close>: \<^verbatim>\<open>Image.fromarray(arr)\<close>; the exception it raises, if any.
\<close>

text \<open>A \<^verbatim>\<open>uint8\<close> array of numpy: its shape and its bytes in row-major order.\<close>

record raster =
  rshape :: "nat list"
  bytes :: "8 word list"

record env =
  randn_image :: "int option \<Rightarrow> int \<Rightarrow> error + rat list"
  adam_init :: "rat \<Rightarrow> error option"
  visual_forward :: "string \<Rightarrow> tensor \<Rightarrow> error + captured option"
  optimizer_step :: "rat \<Rightarrow> nat \<Rightarrow> tensor \<Rightarrow> rat list"
  total_variation :: "tensor \<Rightarrow> rat"
  apply_blur :: "tensor \<Rightarrow> error + rat list"
  image_fromarray :: "raster \<Rightarrow> error option"

text \<open>
  \<^verbatim>\<open>self.normalize(image)\<close> on an image of shape \<open>[1, 3, H, W]\<close>: entry \<open>i\<close> belongs to
  channel \<open>(i div (H * W)) mod 3\<close>. The result is computed from the image outside
  \<^verbatim>\<open>torch.no_grad()\<close> and keeps its \<^verbatim>\<open>requires_grad\<close> flag.
\<close>

definition normalize :: "tensor \<Rightarrow> tensor" where
  "normalize t =
     (let hw = prod_list (drop 2 (shape t))
      in t\<lparr>vals := map (\<lambda>(i, x). (x - clip_mean ! ((i div hw) mod 3)) / clip_std ! ((i div hw) mod 3))
                        (enumerate 0 (vals t))\<rparr>)"

definition neg_scalar :: "scalar \<Rightarrow> scalar" where
  "neg_scalar a = a\<lparr>sc_value := (case sc_value a of Fin x \<Rightarrow> Fin (- x) | NaN \<Rightarrow> NaN)\<rparr>"

text \<open>
  \<^verbatim>\<open>loss.backward()\<close> raises \<^verbatim>\<open>RuntimeError\<close> ("element 0 of tensors does not require
  grad and does not have a grad_fn") on a tensor that autograd does not track.
\<close>

definition backward :: "scalar \<Rightarrow> error option" where
  "backward loss = (if sc_grad loss then None else Some RuntimeError)"

subsection \<open>One iteration of the loop\<close>

text \<open>Lines 129 to 136: normalize, forward pass under \<^verbatim>\<open>no_grad\<close>, read the tap.\<close>

definition observe ::
  "env \<Rightarrow> feature_visualizer \<Rightarrow> string \<Rightarrow> hook \<Rightarrow> tensor \<Rightarrow> error + (hook \<times> scalar)" where
  "observe e self layer_name h img =
     (let normalized_image = normalize img
      in case getattr_opt (model self) ''visual'' of
           None \<Rightarrow> Inl AttributeError
         | Some v \<Rightarrow>
             (case visual_forward e layer_name normalized_image of
                Inl err \<Rightarrow> Inl err
              | Inr out \<Rightarrow>
                  let h' = (case out of None \<Rightarrow> h | Some c \<Rightarrow> hook_call h c)
                  in (case get_activation_value h' of
                        Inl err \<Rightarrow> Inl err
                      | Inr act \<Rightarrow> Inr (h', act))))"

text \<open>
  Lines 145 to 159: optimizer step, total-variation step, periodic blur, clamp.
  \<^verbatim>\<open>(iteration + 1) % blur_every\<close> raises for \<^verbatim>\<open>blur_every == 0\<close>; Python's \<^verbatim>\<open>%\<close> on
  ints is \<open>mod\<close>.
\<close>

definition update_image ::
  "env \<Rightarrow> rat \<Rightarrow> int \<Rightarrow> nat \<Rightarrow> tensor \<Rightarrow> error + tensor" where
  "update_image e learning_rate blur_every iteration img =
     (let image1 = img\<lparr>vals := optimizer_step e learning_rate iteration img\<rparr>;
          tv_loss = total_variation e image1;
          image2 = image1\<lparr>vals := map (\<lambda>x. x - 0.01 * tv_loss) (vals image1)\<rparr>
      in if blur_every = 0 then Inl ZeroDivisionError
         else
           (case (if (int iteration + 1) mod blur_every = 0
                  then (case apply_blur e image2 of
                          Inl err \<Rightarrow> Inl err
                        | Inr d \<Rightarrow> Inr (image2\<lparr>vals := d\<rparr>))
                  else Inr image2) of
              Inl err \<Rightarrow> Inl err
            | Inr image3 \<Rightarrow>
                Inr (image3\<lparr>vals := map (\<lambda>x. min (max x (- 2)) 2) (vals image3)\<rparr>)))"

text \<open>Lines 162 and 163; the callback may raise.\<close>

definition report_progress ::
  "(nat \<Rightarrow> int \<Rightarrow> fval \<Rightarrow> error option) option \<Rightarrow> nat \<Rightarrow> int \<Rightarrow> scalar \<Rightarrow> error option" where
  "report_progress progress_callback iteration num_iterations act =
     (case progress_callback of
        None \<Rightarrow> None
      | Some cb \<Rightarrow>
          if (int iteration + 1) mod max 1 (num_iterations div 20) = 0
          then cb (iteration + 1) num_iterations (sc_value act)
          else None)"

definition iteration_body ::
  "env \<Rightarrow> feature_visualizer \<Rightarrow> string \<Rightarrow> int \<Rightarrow> rat \<Rightarrow> int \<Rightarrow>
   (nat \<Rightarrow> int \<Rightarrow> fval \<Rightarrow> error option) option \<Rightarrow> nat \<Rightarrow> hook \<Rightarrow> tensor \<Rightarrow>
   error + (hook \<times> tensor)" where
  "iteration_body e self layer_name num_iterations learning_rate blur_every progress_callback
     iteration h img =
     (case observe e self layer_name h img of
        Inl err \<Rightarrow> Inl err
      | Inr (h', act) \<Rightarrow>
          (case backward (neg_scalar act) of
             Some err \<Rightarrow> Inl err
           | None \<Rightarrow>
               (case update_image e learning_rate blur_every iteration img of
                  Inl err \<Rightarrow> Inl err
                | Inr img' \<Rightarrow>
                    (case report_progress progress_callback iteration num_iterations act of
                       Some err \<Rightarrow> Inl err
                     | None \<Rightarrow> Inr (h', img')))))"

text \<open>\<^verbatim>\<open>for iteration in range(num_iterations)\<close>: the first exception ends the loop.\<close>

fun run_iterations ::
  "env \<Rightarrow> feature_visualizer \<Rightarrow> string \<Rightarrow> int \<Rightarrow> rat \<Rightarrow> int \<Rightarrow>
   (nat \<Rightarrow> int \<Rightarrow> fval \<Rightarrow> error option) option \<Rightarrow> nat list \<Rightarrow> hook \<Rightarrow> tensor \<Rightarrow>
   error + (hook \<times> tensor)" where
  "run_iterations e self layer_name num_iterations learning_rate blur_every progress_callback
     [] h img = Inr (h, img)"
| "run_iterations e self layer_name num_iterations learning_rate blur_every progress_callback
     (iteration # rest) h img =
     (case iteration_body e self layer_name num_iterations learning_rate blur_every
             progress_callback iteration h img of
        Inl err \<Rightarrow> Inl err
      | Inr (h', img') \<Rightarrow>
          run_iterations e self layer_name num_iterations learning_rate blur_every
            progress_callback rest h' img')"

subsection \<open>The final conversion\<close>

text \<open>
  \<^verbatim>\<open>_tensor_to_image\<close>: \<^verbatim>\<open>squeeze(0)\<close> drops a leading dimension of size 1;
  \<^verbatim>\<open>permute(1, 2, 0)\<close> needs rank 3 and turns \<open>[C, H, W]\<close> into \<open>[H, W, C]\<close>; multiplying
  by the three \<^verbatim>\<open>std\<close> values broadcasts over the last axis, which needs \<open>C = 3\<close> or
  \<open>C = 1\<close>; \<^verbatim>\<open>astype(np.uint8)\<close> drops the fractional part. The raster is row-major:
  byte \<open>i\<close> is row \<open>i div (W * 3)\<close>, column \<open>(i div 3) mod W\<close>, channel \<open>i mod 3\<close>.
\<close>

definition to_uint8 :: "rat \<Rightarrow> 8 word" where
  "to_uint8 x = word_of_int (if 0 \<le> x then \<lfloor>x\<rfloor> else \<lceil>x\<rceil>)"

definition clamp01 :: "rat \<Rightarrow> rat" where
  "clamp01 x = min (max x 0) 1"

definition pixel_byte :: "rat \<Rightarrow> nat \<Rightarrow> 8 word" where
  "pixel_byte x c = to_uint8 (clamp01 (x * clip_std ! c + clip_mean ! c) * 255)"

definition squeeze0 :: "nat list \<Rightarrow> nat list" where
  "squeeze0 sh = (case sh of [] \<Rightarrow> [] | d # ds \<Rightarrow> if d = 1 then ds else d # ds)"

definition tensor_to_image :: "tensor \<Rightarrow> error + raster" where
  "tensor_to_image image_tensor =
     (case squeeze0 (shape image_tensor) of
        [C, H, W] \<Rightarrow>
          if C = 3 \<or> C = 1 then
            Inr \<lparr>rshape = [H, W, 3],
                 bytes = map (\<lambda>i. let h = i div (W * 3); w = (i div 3) mod W; c = i mod 3
                                  in pixel_byte
                                       (vals image_tensor ! (((if C = 1 then 0 else c) * H + h) * W + w))
                                       c)
                             [0..<H * W * 3]\<rparr>
          else Inl RuntimeError
      | _ \<Rightarrow> Inl RuntimeError)"

subsection \<open>\<^verbatim>\<open>generate_image\<close>\<close>

text \<open>
  The call returns its result (the exception, or the array that the returned image
  wraps) and the visualizer with the network as the call leaves it. \<open>hid\<close> is the id
  that PyTorch gives to the handle of the new hook; only a module has
  \<^verbatim>\<open>register_forward_hook\<close>.
\<close>

definition generate_image ::
  "env \<Rightarrow> feature_visualizer \<Rightarrow> nat \<Rightarrow> string \<Rightarrow> int option \<Rightarrow> int \<Rightarrow> int \<Rightarrow> rat \<Rightarrow> int \<Rightarrow>
   int option \<Rightarrow> (nat \<Rightarrow> int \<Rightarrow> fval \<Rightarrow> error option) option \<Rightarrow>
   (error + raster) \<times> feature_visualizer" where
  "generate_image e self hid layer_name neuron_idx image_size num_iterations learning_rate
     blur_every seed progress_callback =
     (case randn_image e seed image_size of
        Inl err \<Rightarrow> (Inl err, self)
      | Inr data \<Rightarrow>
          let img = \<lparr>shape = [1, 3, nat image_size, nat image_size], vals = data,
                       requires_grad = True\<rparr>
          in (case adam_init e learning_rate of
                Some err \<Rightarrow> (Inl err, self)
              | None \<Rightarrow>
                  let target_layer = get_layer_by_name self layer_name
                  in if target_layer = PyNone
                     then (Inl (ValueError (''Layer '' @ layer_name @ '' not found'')), self)
                     else if \<not> is_module target_layer then (Inl AttributeError, self)
                     else
                       let h = hook_init neuron_idx;
                           parts = split_on CHR ''.'' layer_name;
                           self1 = self\<lparr>model := update_at parts (add_hook hid) (model self)\<rparr>;
                           r = run_iterations e self1 layer_name num_iterations learning_rate
                                 blur_every progress_callback [0..<nat num_iterations] h img;
                           self2 = self1\<lparr>model := update_at parts (remove_hook hid) (model self1)\<rparr>
                       in (case r of
                             Inl err \<Rightarrow> (Inl err, self2)
                           | Inr (h', img') \<Rightarrow>
                               (case tensor_to_image (img'\<lparr>requires_grad := False\<rparr>) of
                                  Inl err \<Rightarrow> (Inl err, self2)
                                | Inr img_np \<Rightarrow>
                                    (case image_fromarray e img_np of
                                       Some err \<Rightarrow> (Inl err, self2)
                                     | None \<Rightarrow> (Inr img_np, self2))))))"

section \<open>The specification's wording, for comparison\<close>

text \<open>
  The specification names the size of a layer's output axis as \<^verbatim>\<open>out_features\<close>,
  \<^verbatim>\<open>out_channels\<close>, or the leading dimension of the raw weight, in that priority
  order. \<open>spec_axis_size\<close> follows these words, not the code.
\<close>

definition spec_axis_size :: "pyobj \<Rightarrow> int option" where
  "spec_axis_size layer =
     (case getattr_opt layer ''out_features'' of
        Some (Obj (IntK n) _) \<Rightarrow> Some n
      | _ \<Rightarrow>
          (case getattr_opt layer ''out_channels'' of
             Some (Obj (IntK n) _) \<Rightarrow> Some n
           | _ \<Rightarrow>
               (case getattr_opt layer ''weight'' of
                  Some (Obj (TensorK r (d # ds) g dev) _) \<Rightarrow> Some (int d)
                | _ \<Rightarrow> None)))"


section \<open>A small network\<close>

text \<open>
  A network with a visual tower of a convolution, a transposed convolution
  (\<^verbatim>\<open>nn.ConvTranspose2d(4, 8, 3)\<close>, whose weight has shape \<open>[4, 8, 3, 3]\<close> and which is
  not an \<^verbatim>\<open>nn.Conv2d\<close>) and a dense layer, and a text tower that the visual forward pass
  never runs. It is in training mode and its parameters require gradients, as PyTorch
  creates them.
\<close>

definition conv1_ex :: pyobj where
  "conv1_ex = Obj (ModuleK Conv2d True [])
     [(''out_channels'', py_int 2), (''weight'', Obj (TensorK Param [2, 3, 1, 1] True ''cpu'') [])]"

definition up_ex :: pyobj where
  "up_ex = Obj (ModuleK OtherModule True [])
     [(''out_channels'', py_int 8), (''weight'', Obj (TensorK Param [4, 8, 3, 3] True ''cpu'') [])]"

definition fc_ex :: pyobj where
  "fc_ex = Obj (ModuleK Linear True [])
     [(''out_features'', py_int 3), (''weight'', Obj (TensorK Param [3, 2] True ''cpu'') [])]"

definition visual_ex :: pyobj where
  "visual_ex = Obj (ModuleK OtherModule True [])
     [(''conv1'', conv1_ex), (''up'', up_ex), (''fc'', fc_ex)]"

definition net_ex :: pyobj where
  "net_ex = Obj (ModuleK OtherModule True [])
     [(''visual'', visual_ex), (''transformer'', Obj (ModuleK OtherModule True []) [])]"

definition insp_ex :: layer_inspector where
  "insp_ex = \<lparr>insp_model = net_ex, model_name = ''ViT-B/32'',
     layers_info = [(''visual.conv1'', conv1_ex), (''visual.up'', up_ex), (''visual.fc'', fc_ex)]\<rparr>"

definition vis_ex :: feature_visualizer where
  "vis_ex = init_visualizer net_ex ''cpu''"

text \<open>
  Its collaborators: the initial image is all zeros; a tap on a layer of the visual tower
  sees the output of that layer, computed under \<^verbatim>\<open>torch.no_grad()\<close> (shape
  \<open>[1, 2, 1, 1]\<close> on \<^verbatim>\<open>visual.conv1\<close>); a tap anywhere else sees nothing; the numeric
  kernels leave the image as it is; and wrapping the array succeeds.
\<close>

definition env_ex :: env where
  "env_ex = \<lparr>
     randn_image = (\<lambda>seed image_size. Inr (replicate (3 * nat image_size * nat image_size) 0)),
     adam_init = (\<lambda>lr. None),
     visual_forward = (\<lambda>layer_name x.
        if layer_name = ''visual.conv1''
        then Inr (Some (TensorOut \<lparr>shape = [1, 2, 1, 1], vals = [1, 2], requires_grad = False\<rparr>))
        else if layer_name = ''visual.up''
        then Inr (Some (TensorOut \<lparr>shape = [1, 8, 1, 1], vals = [1, 2, 3, 4, 5, 6, 7, 8],
                                   requires_grad = False\<rparr>))
        else if layer_name = ''visual.fc'' \<or> layer_name = ''visual''
        then Inr (Some (TensorOut \<lparr>shape = [1, 3], vals = [1, 2, 3], requires_grad = False\<rparr>))
        else Inr None),
     optimizer_step = (\<lambda>lr iteration img. vals img),
     total_variation = (\<lambda>img. 0),
     apply_blur = (\<lambda>img. Inr (vals img)),
     image_fromarray = (\<lambda>arr. None)\<rparr>"

section \<open>Auxiliary facts\<close>

subsection \<open>The final conversion\<close>







subsection \<open>The loop keeps the shape of the image\<close>




subsection \<open>Updating the object at a path\<close>

lemma map_entry_same:
  "(\<And>v. map_of xs k = Some v \<Longrightarrow> f v = v) \<Longrightarrow> AList.map_entry k f xs = xs"
  by (induction xs) auto

lemma map_entry_twice:
  "AList.map_entry k g (AList.map_entry k f xs) = AList.map_entry k (g \<circ> f) xs"
  by (induction xs) auto

lemma update_at_same:
  "f (resolve_parts m parts) = resolve_parts m parts \<Longrightarrow> update_at parts f m = m"
proof (induction parts arbitrary: m)
  case Nil
  then show ?case by simp
next
  case (Cons part parts)
  show ?case
  proof (cases m)
    case PyNone
    then show ?thesis by simp
  next
    case (Obj k as)
    have "AList.map_entry part (update_at parts f) as = as"
    proof (rule map_entry_same)
      fix v assume v: "map_of as part = Some v"
      with Cons.prems Obj have "f (resolve_parts v parts) = resolve_parts v parts"
        by (simp add: getattr_opt_def)
      then show "update_at parts f v = v" by (rule Cons.IH)
    qed
    with Obj show ?thesis by simp
  qed
qed

lemma update_at_twice:
  "update_at parts g (update_at parts f m) = update_at parts (\<lambda>x. g (f x)) m"
proof (induction parts arbitrary: m)
  case Nil
  then show ?case by simp
next
  case (Cons part parts)
  have "update_at parts g \<circ> update_at parts f = update_at parts (\<lambda>x. g (f x))"
    using Cons.IH by (simp add: fun_eq_iff)
  then show ?case
    by (cases m) (simp_all add: map_entry_twice)
qed

lemma remove_add_hook:
  "hid \<notin> set (hooks_of x) \<Longrightarrow> remove_hook hid (add_hook hid x) = x"
  by (induction hid x rule: add_hook.induct) simp_all

lemma tap_round_trip:
  assumes "hid \<notin> set (hooks_of (resolve_parts m parts))"
  shows "update_at parts (remove_hook hid) (update_at parts (add_hook hid) m) = m"
proof -
  have "remove_hook hid (add_hook hid (resolve_parts m parts)) = resolve_parts m parts"
    using assms by (simp add: remove_add_hook)
  then show ?thesis
    unfolding update_at_twice by (rule update_at_same)
qed

lemma keys_map_entry: "map fst (AList.map_entry k f xs) = map fst xs"
  by (induction xs) auto

lemma keys_update_at:
  assumes "\<And>x. map fst (attrs (f x)) = map fst (attrs x)"
  shows "map fst (attrs (update_at parts f m)) = map fst (attrs m)"
  by (cases parts; cases m) (simp_all add: assms keys_map_entry)

lemma keys_add_hook: "map fst (attrs (add_hook hid x)) = map fst (attrs x)"
  by (induction hid x rule: add_hook.induct) simp_all

lemma hasattr_installed:
  "getattr_opt (update_at parts (add_hook hid) m) n = None \<longleftrightarrow> getattr_opt m n = None"
  using keys_update_at [of "add_hook hid" parts m, OF keys_add_hook]
  by (simp add: getattr_opt_def map_of_eq_None_iff) (metis list.set_map)

subsection \<open>The shape of a call\<close>

lemma generate_image_restores:
  assumes "hid \<notin> set (hooks_of (get_layer_by_name self layer_name))"
  shows "snd (generate_image e self hid layer_name neuron_idx image_size num_iterations
                learning_rate blur_every seed progress_callback) = self"
  using assms tap_round_trip [of hid "model self" "split_on CHR ''.'' layer_name"]
  by (simp add: generate_image_def get_layer_by_name_def Let_def
      split: sum.splits option.splits prod.splits)

lemma generate_image_run:
  assumes "randn_image e seed image_size = Inr data" "adam_init e learning_rate = None"
    and "is_module (get_layer_by_name self layer_name)"
  shows "fst (generate_image e self hid layer_name neuron_idx image_size num_iterations
                learning_rate blur_every seed progress_callback) =
         (case run_iterations e
                 (self\<lparr>model := update_at (split_on CHR ''.'' layer_name) (add_hook hid) (model self)\<rparr>)
                 layer_name num_iterations learning_rate blur_every progress_callback
                 [0..<nat num_iterations] (hook_init neuron_idx)
                 \<lparr>shape = [1, 3, nat image_size, nat image_size], vals = data, requires_grad = True\<rparr> of
            Inl err \<Rightarrow> Inl err
          | Inr (h', img') \<Rightarrow>
              (case tensor_to_image (img'\<lparr>requires_grad := False\<rparr>) of
                 Inl err \<Rightarrow> Inl err
               | Inr img_np \<Rightarrow>
                   (case image_fromarray e img_np of Some err \<Rightarrow> Inl err | None \<Rightarrow> Inr img_np)))"
proof -
  have "get_layer_by_name self layer_name \<noteq> PyNone"
    using assms(3) by auto
  then show ?thesis
    using assms by (simp add: generate_image_def Let_def split: sum.splits prod.splits option.splits)
qed

lemma generate_image_early:
  assumes "\<not> (\<exists>data. randn_image e seed image_size = Inr data \<and> adam_init e learning_rate = None \<and>
              is_module (get_layer_by_name self layer_name))"
  shows "\<exists>err. generate_image e self hid layer_name neuron_idx image_size num_iterations
                learning_rate blur_every seed progress_callback = (Inl err, self)"
  using assms by (auto simp: generate_image_def Let_def split: sum.splits option.splits)

lemma first_iteration:
  "0 < num_iterations \<Longrightarrow> [0..<nat num_iterations] = 0 # [1..<nat num_iterations]"
  by (simp add: upt_conv_Cons)

subsection \<open>What autograd tracks\<close>

lemma get_activation_value_grad:
  assumes "get_activation_value h = Inr act"
  shows "sc_grad act = (case activation h of Some (TensorOut a) \<Rightarrow> requires_grad a | _ \<Rightarrow> False)"
  using assms
  by (auto simp: get_activation_value_def mean_all_def mean_dim1_mean_def index_dim1_def Let_def
      split: option.splits captured.splits if_splits sum.splits)

lemma observe_untracked:
  assumes nograd: "\<forall>x out. visual_forward e layer_name x = Inr (Some (TensorOut out)) \<longrightarrow>
                     \<not> requires_grad out"
    and "activation h = None"
    and "observe e self layer_name h img = Inr (h', act)"
  shows "\<not> sc_grad act"
proof -
  from assms(3) obtain out where
    fw: "visual_forward e layer_name (normalize img) = Inr out"
    and h': "h' = (case out of None \<Rightarrow> h | Some c \<Rightarrow> hook_call h c)"
    and act: "get_activation_value h' = Inr act"
    by (auto simp: observe_def Let_def split: option.splits sum.splits)
  show ?thesis
  proof (cases out)
    case None
    with h' assms(2) act show ?thesis
      by (simp add: get_activation_value_def) auto
  next
    case (Some c)
    show ?thesis
    proof (cases c)
      case (TensorOut a)
      with Some fw have "\<not> requires_grad a" using nograd by simp
      with get_activation_value_grad [OF act] h' Some TensorOut show ?thesis
        by (simp add: hook_call_def)
    next
      case NonTensorOut
      with act h' Some show ?thesis by (simp add: get_activation_value_def hook_call_def)
    qed
  qed
qed

lemma iteration_body_untracked:
  assumes "\<forall>x out. visual_forward e layer_name x = Inr (Some (TensorOut out)) \<longrightarrow>
             \<not> requires_grad out"
    and "activation h = None"
  shows "\<exists>err. iteration_body e self layer_name n lr be cb it h img = Inl err"
proof (cases "observe e self layer_name h img")
  case (Inl err)
  then show ?thesis by (simp add: iteration_body_def)
next
  case (Inr p)
  obtain h' act where p: "p = (h', act)" by (cases p)
  have "\<not> sc_grad act" using observe_untracked [OF assms(1) assms(2)] Inr p by blast
  then show ?thesis
    using Inr p by (simp add: iteration_body_def backward_def neg_scalar_def)
qed

subsection \<open>Construction of the engine\<close>

lemma eval_frozen_init: "eval_frozen (freeze_params (eval_mode x))"
proof (induction x)
  case PyNone
  then show ?case by simp
next
  case (Obj k as)
  show ?case
  proof (cases k)
    case (ModuleK c t hs)
    have "eval_frozen (freeze_params (eval_mode child))" if "(name, child) \<in> set as" for name child
      using Obj.IH that by force
    then show ?thesis
      using ModuleK by (auto simp: list_all_iff)
  qed simp_all
qed

subsection \<open>The tap during and after a run\<close>

lemma map_of_map_entry:
  "map_of (AList.map_entry k f xs) k = map_option f (map_of xs k)"
  by (induction xs) auto

lemma resolve_update_at:
  assumes "f PyNone = PyNone"
  shows "resolve_parts (update_at parts f m) parts = f (resolve_parts m parts)"
proof (induction parts arbitrary: m)
  case Nil
  then show ?case by simp
next
  case (Cons part parts)
  show ?case
  proof (cases m)
    case PyNone
    then show ?thesis by (simp add: getattr_opt_def assms)
  next
    case (Obj k as)
    then show ?thesis
      by (cases "map_of as part") (simp_all add: getattr_opt_def map_of_map_entry assms Cons.IH)
  qed
qed

lemma tap_installed:
  "is_module x \<Longrightarrow> hid \<in> set (hooks_of (add_hook hid x))"
  by (induction hid x rule: add_hook.induct) simp_all

lemma hooks_after_removal:
  "hooks_of (remove_hook hid (add_hook hid x)) = removeAll hid (hooks_of x)"
  by (induction hid x rule: add_hook.induct) simp_all

lemma generate_image_final_state:
  assumes "randn_image e seed image_size = Inr data" "adam_init e learning_rate = None"
    and "is_module (get_layer_by_name self layer_name)"
  shows "snd (generate_image e self hid layer_name neuron_idx image_size num_iterations
                learning_rate blur_every seed progress_callback) =
         self\<lparr>model := update_at (split_on CHR ''.'' layer_name) (remove_hook hid)
                          (update_at (split_on CHR ''.'' layer_name) (add_hook hid) (model self))\<rparr>"
proof -
  have "get_layer_by_name self layer_name \<noteq> PyNone"
    using assms(3) by auto
  then show ?thesis
    using assms by (simp add: generate_image_def Let_def split: sum.splits prod.splits option.splits)
qed

lemma run_first_fails:
  assumes "0 < num_iterations"
    and "iteration_body e self layer_name num_iterations learning_rate blur_every
           progress_callback 0 h img = Inl err"
  shows "run_iterations e self layer_name num_iterations learning_rate blur_every
           progress_callback [0..<nat num_iterations] h img = Inl err"
  using assms(2) by (simp add: first_iteration [OF assms(1)])

lemma index_dim1_out_of_range:
  "int (shape a ! 1) \<le> i \<or> i < - int (shape a ! 1) \<Longrightarrow> index_dim1 a i = Inl IndexError"
  by (auto simp: index_dim1_def Let_def)

subsection \<open>Unit names\<close>

lemma num_neurons_of_found:
  assumes "getattr_opt layer ''out_features'' = Some (Obj (IntK n) xs) \<or>
           (getattr_opt layer ''out_features'' = None \<and>
            getattr_opt layer ''weight'' = Some (Obj (TensorK r sh g d) ws) \<and>
            n = (case sh of [] \<Rightarrow> 0 | d0 # ds \<Rightarrow> int d0)) \<or>
           (getattr_opt layer ''out_features'' = None \<and> getattr_opt layer ''weight'' = None \<and>
            n = 0)"
  shows "\<exists>ys. num_neurons_of layer = Inr (Obj (IntK n) ys)"
  using assms by (auto simp: num_neurons_of_def py_int_def split: list.splits)

section \<open>The claims\<close>

text \<open>
  Claim C1 asks that the forward evaluation up to the tapped layer stays differentiable
  with respect to the image, so that the gradient of the scalar activation reaches the
  image. The code runs the forward pass inside \<^verbatim>\<open>torch.no_grad()\<close>, so what the tap
  captures is not tracked by autograd. Whenever that is so, the activation read from a
  fresh tap is untracked as well, \<^verbatim>\<open>loss.backward()\<close> raises on it, and a call with at
  least one iteration ends in an exception: no gradient ever reaches the image.
\<close>

theorem generate_image_backward_untracked:
  assumes nograd: "\<forall>x out. visual_forward e layer_name x = Inr (Some (TensorOut out)) \<longrightarrow>
                     \<not> requires_grad out"
    and iters: "0 < num_iterations"
  shows "(\<forall>self' img h' act.
            observe e self' layer_name (hook_init neuron_idx) img = Inr (h', act) \<longrightarrow>
            backward (neg_scalar act) = Some RuntimeError) \<and>
         (\<exists>err. fst (generate_image e self hid layer_name neuron_idx image_size num_iterations
                        learning_rate blur_every seed progress_callback) = Inl err)"
proof -
  have none: "activation (hook_init neuron_idx) = None" by (simp add: hook_init_def)
  have a: "backward (neg_scalar act) = Some RuntimeError"
    if "observe e self' layer_name (hook_init neuron_idx) img = Inr (h', act)" for self' img h' act
  proof -
    have "\<not> sc_grad act"
      using that by (rule observe_untracked [OF nograd none])
    then show ?thesis
      by (simp add: backward_def neg_scalar_def)
  qed
  have run: "\<exists>err. run_iterations e self' layer_name num_iterations learning_rate blur_every
           progress_callback [0..<nat num_iterations] (hook_init neuron_idx) img = Inl err"
    for self' img
    using iteration_body_untracked [OF nograd none, of self' num_iterations learning_rate
        blur_every progress_callback 0 img]
    by (auto simp: first_iteration [OF iters])
  have b: "\<exists>err. fst (generate_image e self hid layer_name neuron_idx image_size num_iterations
                        learning_rate blur_every seed progress_callback) = Inl err"
  proof (cases "\<exists>data. randn_image e seed image_size = Inr data \<and>
                  adam_init e learning_rate = None \<and>
                  is_module (get_layer_by_name self layer_name)")
    case True
    then obtain data where d: "randn_image e seed image_size = Inr data"
      "adam_init e learning_rate = None" "is_module (get_layer_by_name self layer_name)"
      by blast
    show ?thesis
      unfolding generate_image_run [OF d]
      using run [of "self\<lparr>model := update_at (split_on CHR ''.'' layer_name) (add_hook hid)
                                         (model self)\<rparr>"
          "\<lparr>shape = [1, 3, nat image_size, nat image_size], vals = data, requires_grad = True\<rparr>"]
      by auto
  next
    case False
    from generate_image_early [OF this] show ?thesis by (metis fst_conv)
  qed
  from a b show ?thesis by blast
qed

theorem generate_image_backward_untracked_witness:
  "(0::int) < 3 \<and>
   (\<exists>err. fst (generate_image env_ex vis_ex 7 ''visual.conv1'' (Some 0) 2 3 (1 / 100) 10
                  (Some 42) None) = Inl err)"
proof -
  have h: "\<forall>x out. visual_forward env_ex ''visual.conv1'' x = Inr (Some (TensorOut out)) \<longrightarrow>
                   \<not> requires_grad out"
    by (auto simp: env_ex_def)
  show ?thesis
    using h generate_image_backward_untracked [of env_ex "''visual.conv1''" 3 "Some 0" vis_ex 7 2
        "1 / 100" 10 "Some 42" None, OF h]
    by simp
qed

text \<open>On the example network the exception is the one of \<^verbatim>\<open>loss.backward()\<close>.\<close>

lemma conv1_run_fails:
  "fst (generate_image env_ex vis_ex 7 ''visual.conv1'' (Some 0) 2 3 (1 / 100) 10 (Some 42) None)
     = Inl RuntimeError"
  by code_simp

text \<open>
  Claim C2 says that \<^verbatim>\<open>iterationCount = 0\<close>, \<^verbatim>\<open>imageSize = 0\<close> and a unit index at or
  beyond the axis size are rejected with \<^verbatim>\<open>InvalidParameter\<close> before the loop. The code
  validates none of them: with zero iterations the call returns an image.
\<close>

theorem zero_iterations_returns_image:
  "fst (generate_image env_ex vis_ex 7 ''visual.conv1'' (Some 0) 1 0 (1 / 100) 10 (Some 42) None)
     = Inr \<lparr>rshape = [1, 1, 3], bytes = [122, 116, 104]\<rparr>"
  by code_simp

text \<open>
  Claim C2 as amended: the engine has no parameter validation of its own. Once the
  initial image and the optimizer exist and the path resolves to a module, a call with
  \<^verbatim>\<open>iterationCount\<close> zero (or less) runs no iteration and returns the conversion of the
  initial image, for every \<^verbatim>\<open>imageSize\<close> whose array the image library accepts; and a
  unit index outside \<open>[-n, n)\<close>, for \<open>n\<close> the size of axis 1 of a rank-4 or rank-2
  tapped output, is met only when the first iteration reads the activation, as an
  \<^verbatim>\<open>IndexError\<close>, and no image is returned.
\<close>

theorem generate_image_unchecked_parameters:
  assumes "randn_image e seed image_size = Inr data" "adam_init e learning_rate = None"
    and "is_module (get_layer_by_name self layer_name)"
  shows "(num_iterations \<le> 0 \<and>
          tensor_to_image \<lparr>shape = [1, 3, nat image_size, nat image_size], vals = data,
                           requires_grad = False\<rparr> = Inr img_np \<and>
          image_fromarray e img_np = None \<longrightarrow>
            fst (generate_image e self hid layer_name neuron_idx image_size num_iterations
                   learning_rate blur_every seed progress_callback) = Inr img_np) \<and>
         (0 < num_iterations \<and> getattr_opt (model self) ''visual'' \<noteq> None \<and>
          visual_forward e layer_name
            (normalize \<lparr>shape = [1, 3, nat image_size, nat image_size], vals = data,
                        requires_grad = True\<rparr>) = Inr (Some (TensorOut a)) \<and>
          (length (shape a) = 4 \<or> length (shape a) = 2) \<and>
          neuron_idx = Some i \<and> (int (shape a ! 1) \<le> i \<or> i < - int (shape a ! 1)) \<longrightarrow>
            fst (generate_image e self hid layer_name neuron_idx image_size num_iterations
                   learning_rate blur_every seed progress_callback) = Inl IndexError)"
proof (intro conjI impI)
  assume "num_iterations \<le> 0 \<and>
          tensor_to_image \<lparr>shape = [1, 3, nat image_size, nat image_size], vals = data,
                           requires_grad = False\<rparr> = Inr img_np \<and>
          image_fromarray e img_np = None"
  then show "fst (generate_image e self hid layer_name neuron_idx image_size num_iterations
                   learning_rate blur_every seed progress_callback) = Inr img_np"
    by (simp add: generate_image_run [OF assms])
next
  let ?self1 = "self\<lparr>model := update_at (split_on CHR ''.'' layer_name) (add_hook hid)
                                  (model self)\<rparr>"
  let ?img = "\<lparr>shape = [1, 3, nat image_size, nat image_size], vals = data,
               requires_grad = True\<rparr>"
  assume h: "0 < num_iterations \<and> getattr_opt (model self) ''visual'' \<noteq> None \<and>
          visual_forward e layer_name (normalize ?img) = Inr (Some (TensorOut a)) \<and>
          (length (shape a) = 4 \<or> length (shape a) = 2) \<and>
          neuron_idx = Some i \<and> (int (shape a ! 1) \<le> i \<or> i < - int (shape a ! 1))"
  then have v: "getattr_opt (model ?self1) ''visual'' \<noteq> None"
    by (simp add: hasattr_installed)
  have "index_dim1 a i = Inl IndexError"
    using h by (intro index_dim1_out_of_range) blast
  then have "get_activation_value (hook_call (hook_init neuron_idx) (TensorOut a)) = Inl IndexError"
    using h by (auto simp: get_activation_value_def hook_call_def hook_init_def)
  then have "observe e ?self1 layer_name (hook_init neuron_idx) ?img = Inl IndexError"
    using v h by (auto simp: observe_def Let_def)
  then have "iteration_body e ?self1 layer_name num_iterations learning_rate blur_every
               progress_callback 0 (hook_init neuron_idx) ?img = Inl IndexError"
    by (simp add: iteration_body_def)
  then have "run_iterations e ?self1 layer_name num_iterations learning_rate blur_every
               progress_callback [0..<nat num_iterations] (hook_init neuron_idx) ?img
             = Inl IndexError"
    using h by (intro run_first_fails) simp_all
  then show "fst (generate_image e self hid layer_name neuron_idx image_size num_iterations
                   learning_rate blur_every seed progress_callback) = Inl IndexError"
    by (simp add: generate_image_run [OF assms])
qed

theorem generate_image_unchecked_parameters_witness:
  "randn_image env_ex (Some 42) 2 = Inr (replicate 12 0) \<and>
   adam_init env_ex (1 / 100) = None \<and>
   is_module (get_layer_by_name vis_ex ''visual.conv1'') \<and>
   fst (generate_image env_ex vis_ex 7 ''visual.conv1'' (Some 2) 2 0 (1 / 100) 10 (Some 42) None)
     = Inr \<lparr>rshape = [2, 2, 3],
            bytes = [122, 116, 104, 122, 116, 104, 122, 116, 104, 122, 116, 104]\<rparr> \<and>
   fst (generate_image env_ex vis_ex 7 ''visual.conv1'' (Some 2) 2 3 (1 / 100) 10 (Some 42) None)
     = Inl IndexError"
proof -
  have a: "randn_image env_ex (Some 42) 2 = Inr (replicate 12 0)"
    by (simp add: env_ex_def)
  have b: "adam_init env_ex (1 / 100) = None"
    by (simp add: env_ex_def)
  have c: "is_module (get_layer_by_name vis_ex ''visual.conv1'')"
    by code_simp
  have d: "getattr_opt (model vis_ex) ''visual'' \<noteq> None"
    by code_simp
  have f: "visual_forward env_ex ''visual.conv1''
            (normalize \<lparr>shape = [1, 3, nat 2, nat 2], vals = replicate 12 0, requires_grad = True\<rparr>)
           = Inr (Some (TensorOut \<lparr>shape = [1, 2, 1, 1], vals = [1, 2], requires_grad = False\<rparr>))"
    by (simp add: env_ex_def)
  have t: "tensor_to_image \<lparr>shape = [1, 3, nat 2, nat 2], vals = replicate 12 0,
                            requires_grad = False\<rparr>
           = Inr \<lparr>rshape = [2, 2, 3],
                  bytes = [122, 116, 104, 122, 116, 104, 122, 116, 104, 122, 116, 104]\<rparr>"
    by code_simp
  have w: "image_fromarray env_ex \<lparr>rshape = [2, 2, 3],
                  bytes = [122, 116, 104, 122, 116, 104, 122, 116, 104, 122, 116, 104]\<rparr> = None"
    by (simp add: env_ex_def)
  have z: "fst (generate_image env_ex vis_ex 7 ''visual.conv1'' (Some 2) 2 0 (1 / 100) 10
                  (Some 42) None)
     = Inr \<lparr>rshape = [2, 2, 3],
            bytes = [122, 116, 104, 122, 116, 104, 122, 116, 104, 122, 116, 104]\<rparr>"
    using generate_image_unchecked_parameters [OF a b c,
        where num_iterations = 0 and hid = 7 and neuron_idx = "Some 2" and blur_every = 10
          and progress_callback = None
          and img_np = "\<lparr>rshape = [2, 2, 3],
                  bytes = [122, 116, 104, 122, 116, 104, 122, 116, 104, 122, 116, 104]\<rparr>"] t w
    by simp
  have x: "fst (generate_image env_ex vis_ex 7 ''visual.conv1'' (Some 2) 2 3 (1 / 100) 10
                  (Some 42) None)
     = Inl IndexError"
    using generate_image_unchecked_parameters [OF a b c,
        where num_iterations = 3 and hid = 7 and neuron_idx = "Some 2" and blur_every = 10
          and progress_callback = None and i = 2
          and a = "\<lparr>shape = [1, 2, 1, 1], vals = [1, 2], requires_grad = False\<rparr>"] d f
    by simp
  from a b c z x show ?thesis by blast
qed

text \<open>
  Claim C3 says that a tapped output whose rank is neither 4 nor 2 makes the call fail
  with \<^verbatim>\<open>UnsupportedLayerShape\<close>. The code has no such check: for a rank-3 output the
  tap yields a scalar.
\<close>

theorem rank3_activation_is_scalar:
  "get_activation_value
     \<lparr>neuron_index = Some 0,
      activation = Some (TensorOut \<lparr>shape = [1, 2, 2], vals = [1, 2, 3, 4], requires_grad = False\<rparr>)\<rparr>
   = Inr \<lparr>sc_value = Fin (5 / 2), sc_grad = False\<rparr>"
  by (simp add: get_activation_value_def mean_all_def mean_def)

text \<open>
  Claim C3 as amended: for a tapped tensor whose rank is neither 4 nor 2, reading the
  activation does not fail; the scalar is the mean over all entries of the tensor and
  the unit index is ignored.
\<close>

theorem get_activation_value_other_rank:
  assumes "activation h = Some (TensorOut a)" "length (shape a) \<noteq> 4" "length (shape a) \<noteq> 2"
  shows "get_activation_value h = Inr (mean_all a)"
  using assms by (simp add: get_activation_value_def)

theorem get_activation_value_other_rank_witness:
  "activation \<lparr>neuron_index = Some 5, activation = Some (TensorOut
       \<lparr>shape = [2, 1, 1, 1, 2], vals = [4, 0, 2, 2], requires_grad = False\<rparr>)\<rparr>
     = Some (TensorOut \<lparr>shape = [2, 1, 1, 1, 2], vals = [4, 0, 2, 2], requires_grad = False\<rparr>) \<and>
   length (shape \<lparr>shape = [2, 1, 1, 1, 2], vals = [4, 0, 2, 2], requires_grad = False\<rparr>) \<noteq> 4 \<and>
   length (shape \<lparr>shape = [2, 1, 1, 1, 2], vals = [4, 0, 2, 2], requires_grad = False\<rparr>) \<noteq> 2 \<and>
   get_activation_value \<lparr>neuron_index = Some 5, activation = Some (TensorOut
       \<lparr>shape = [2, 1, 1, 1, 2], vals = [4, 0, 2, 2], requires_grad = False\<rparr>)\<rparr>
     = Inr \<lparr>sc_value = Fin 2, sc_grad = False\<rparr>"
  using get_activation_value_other_rank [of
      "\<lparr>neuron_index = Some 5, activation = Some (TensorOut
          \<lparr>shape = [2, 1, 1, 1, 2], vals = [4, 0, 2, 2], requires_grad = False\<rparr>)\<rparr>"
      "\<lparr>shape = [2, 1, 1, 1, 2], vals = [4, 0, 2, 2], requires_grad = False\<rparr>"]
  by (simp add: mean_all_def mean_def)




text \<open>
  Claim C6 says that every path absent from \<^verbatim>\<open>listLayers()\<close> is rejected with
  \<^verbatim>\<open>LayerNotFound\<close>. The engine resolves a path by attributes from the root of the
  network, not through the Directory: \<^verbatim>\<open>visual\<close>, the root of the listed subtree, is
  not listed, yet it resolves and the call goes on to return an image.
\<close>

theorem visual_unlisted_but_accepted:
  "init_inspector net_ex ''ViT-B/32'' = Inr insp_ex \<and>
   ''visual'' \<notin> set (get_layer_names insp_ex) \<and>
   fst (generate_image env_ex vis_ex 7 ''visual'' (Some 0) 1 0 (1 / 100) 10 (Some 42) None)
     = Inr \<lparr>rshape = [1, 1, 3], bytes = [122, 116, 104]\<rparr>"
  by code_simp

text \<open>
  Claim C6 as amended: for every path whose resolution by attributes from the root of
  the network fails, the call (once the initial image and the optimizer exist) raises
  the \<^verbatim>\<open>ValueError\<close> "Layer <path> not found" and leaves the network as it was; a path
  that the Directory does not list may still resolve.
\<close>

theorem generate_image_layer_not_found:
  assumes "randn_image e seed image_size = Inr data" "adam_init e learning_rate = None"
    and "get_layer_by_name self layer_name = PyNone"
  shows "generate_image e self hid layer_name neuron_idx image_size num_iterations
           learning_rate blur_every seed progress_callback
         = (Inl (ValueError (''Layer '' @ layer_name @ '' not found'')), self)"
  using assms by (simp add: generate_image_def)

theorem generate_image_layer_not_found_witness:
  "randn_image env_ex (Some 42) 2 = Inr (replicate 12 0) \<and>
   adam_init env_ex (1 / 100) = None \<and>
   get_layer_by_name vis_ex ''visual.nope'' = PyNone \<and>
   generate_image env_ex vis_ex 7 ''visual.nope'' (Some 0) 2 3 (1 / 100) 10 (Some 42) None
     = (Inl (ValueError ''Layer visual.nope not found''), vis_ex)"
proof -
  have a: "randn_image env_ex (Some 42) 2 = Inr (replicate 12 0)"
    by (simp add: env_ex_def)
  have b: "adam_init env_ex (1 / 100) = None"
    by (simp add: env_ex_def)
  have c: "get_layer_by_name vis_ex ''visual.nope'' = PyNone"
    by code_simp
  from generate_image_layer_not_found [OF a b c,
      where hid = 7 and neuron_idx = "Some 0" and num_iterations = 3 and blur_every = 10
        and progress_callback = None] a b c
  show ?thesis by simp
qed

text \<open>
  Claim C7: whenever a call installs its tap (the initial image and the optimizer exist
  and the path resolves to a module), the tap is on the resolved layer while the loop
  runs, and when the call ends, with an image or with any exception, the hooks of the
  resolved layer are the ones it had before, without the handle of this call.
\<close>

theorem generate_image_removes_tap:
  assumes "randn_image e seed image_size = Inr data" "adam_init e learning_rate = None"
    and "is_module (get_layer_by_name self layer_name)"
  shows "hid \<in> set (hooks_of (get_layer_by_name
                     (self\<lparr>model := update_at (split_on CHR ''.'' layer_name) (add_hook hid)
                                       (model self)\<rparr>)
                     layer_name)) \<and>
         hooks_of (get_layer_by_name
                     (snd (generate_image e self hid layer_name neuron_idx image_size
                             num_iterations learning_rate blur_every seed progress_callback))
                     layer_name)
           = removeAll hid (hooks_of (get_layer_by_name self layer_name)) \<and>
         hid \<notin> set (hooks_of (get_layer_by_name
                     (snd (generate_image e self hid layer_name neuron_idx image_size
                             num_iterations learning_rate blur_every seed progress_callback))
                     layer_name))"
proof -
  have during: "hid \<in> set (hooks_of (get_layer_by_name
                     (self\<lparr>model := update_at (split_on CHR ''.'' layer_name) (add_hook hid)
                                       (model self)\<rparr>)
                     layer_name))"
    using assms(3) by (simp add: get_layer_by_name_def resolve_update_at tap_installed)
  have after: "hooks_of (get_layer_by_name
                     (snd (generate_image e self hid layer_name neuron_idx image_size
                             num_iterations learning_rate blur_every seed progress_callback))
                     layer_name)
           = removeAll hid (hooks_of (get_layer_by_name self layer_name))"
    unfolding generate_image_final_state [OF assms]
    by (simp add: get_layer_by_name_def resolve_update_at hooks_after_removal)
  from during after show ?thesis by simp
qed

theorem generate_image_removes_tap_witness:
  "randn_image env_ex (Some 42) 2 = Inr (replicate 12 0) \<and>
   adam_init env_ex (1 / 100) = None \<and>
   is_module (get_layer_by_name vis_ex ''visual.conv1'') \<and>
   fst (generate_image env_ex vis_ex 7 ''visual.conv1'' (Some 2) 2 3 (1 / 100) 10 (Some 42) None)
     = Inl IndexError \<and>
   7 \<notin> set (hooks_of (get_layer_by_name
                (snd (generate_image env_ex vis_ex 7 ''visual.conv1'' (Some 2) 2 3 (1 / 100) 10
                        (Some 42) None))
                ''visual.conv1''))"
proof -
  have a: "randn_image env_ex (Some 42) 2 = Inr (replicate 12 0)"
    by (simp add: env_ex_def)
  have b: "adam_init env_ex (1 / 100) = None"
    by (simp add: env_ex_def)
  have c: "is_module (get_layer_by_name vis_ex ''visual.conv1'')"
    by code_simp
  have d: "fst (generate_image env_ex vis_ex 7 ''visual.conv1'' (Some 2) 2 3 (1 / 100) 10
                  (Some 42) None) = Inl IndexError"
    by code_simp
  from generate_image_removes_tap [OF a b c,
      where hid = 7 and neuron_idx = "Some 2" and num_iterations = 3 and blur_every = 10
        and progress_callback = None] a b c d
  show ?thesis by blast
qed

text \<open>
  Claim C8 says that the network is the same after any call, and after any construction
  of the engine, as before it. Construction changes the network on purpose: it puts
  every module in evaluation mode and clears \<^verbatim>\<open>requires_grad\<close> on every parameter.
\<close>

theorem init_visualizer_mutates:
  "model (init_visualizer net_ex ''cpu'') \<noteq> net_ex"
  by code_simp

text \<open>
  Claim C8 as amended: construction of the engine leaves every module of the network in
  evaluation mode and every parameter with \<^verbatim>\<open>requires_grad\<close> cleared; after that,
  \<^verbatim>\<open>generate_image\<close> leaves the network (every parameter, attribute, mode and hook) as
  it found it, whatever the call returns, given that the handle of its tap is new to
  the resolved layer.
\<close>

theorem generate_image_keeps_network:
  "eval_frozen (model (init_visualizer m dev)) \<and>
   (hid \<notin> set (hooks_of (get_layer_by_name self layer_name)) \<longrightarrow>
    snd (generate_image e self hid layer_name neuron_idx image_size num_iterations
           learning_rate blur_every seed progress_callback) = self)"
  by (simp add: init_visualizer_def eval_frozen_init generate_image_restores)

theorem generate_image_keeps_network_witness:
  "eval_frozen (model (init_visualizer net_ex ''cpu'')) \<and>
   7 \<notin> set (hooks_of (get_layer_by_name vis_ex ''visual.conv1'')) \<and>
   snd (generate_image env_ex vis_ex 7 ''visual.conv1'' (Some 0) 2 3 (1 / 100) 10 (Some 42) None)
     = vis_ex"
proof -
  have a: "7 \<notin> set (hooks_of (get_layer_by_name vis_ex ''visual.conv1''))"
    by code_simp
  from generate_image_keeps_network [where m = net_ex and dev = "''cpu''" and hid = 7
      and self = vis_ex and layer_name = "''visual.conv1''" and e = env_ex
      and neuron_idx = "Some 0" and image_size = 2 and num_iterations = 3
      and learning_rate = "1 / 100" and blur_every = 10 and seed = "Some 42"
      and progress_callback = None] a
  show ?thesis by blast
qed

text \<open>
  Claim C9 gives the number of unit names as the declared size of the output axis, taken
  from \<^verbatim>\<open>out_features\<close>, \<^verbatim>\<open>out_channels\<close> or the leading dimension of the weight, in
  that order. The code consults \<^verbatim>\<open>out_channels\<close> only for an \<^verbatim>\<open>nn.Conv2d\<close>: a transposed
  convolution with 8 output channels, whose weight has leading dimension 4, gets 4
  unit names.
\<close>

theorem transposed_conv_unit_count:
  "get_layer insp_ex ''visual.up'' = Some up_ex \<and>
   spec_axis_size up_ex = Some 8 \<and>
   get_neuron_names insp_ex ''visual.up'' = Inr [''unit_0'', ''unit_1'', ''unit_2'', ''unit_3'']"
  by code_simp

text \<open>
  Claim C9 as amended: let \<open>n\<close> be \<^verbatim>\<open>out_features\<close> when the layer has that attribute,
  otherwise the leading dimension of its weight tensor (0 for a weight of rank 0),
  otherwise 0. For a known path, the names are \<open>neuron_i\<close> for \<open>i < n\<close> on a dense
  layer; \<open>channel_i\<close> for \<open>i < out_channels\<close> (or \<open>n\<close> without that attribute) on a
  convolutional layer, provided \<open>n\<close> is not 0; \<open>unit_i\<close> for \<open>i < min n 768\<close> on any
  other layer; and none when \<open>n\<close> is 0. For an unknown path the result is empty.
\<close>

theorem get_neuron_names_units:
  assumes size: "getattr_opt layer ''out_features'' = Some (Obj (IntK n) xs) \<or>
           (getattr_opt layer ''out_features'' = None \<and>
            getattr_opt layer ''weight'' = Some (Obj (TensorK r sh g d) ws) \<and>
            n = (case sh of [] \<Rightarrow> 0 | d0 # ds \<Rightarrow> int d0)) \<or>
           (getattr_opt layer ''out_features'' = None \<and> getattr_opt layer ''weight'' = None \<and>
            n = 0)"
    and channels: "isinstance layer Conv2d \<longrightarrow>
           getattr_opt layer ''out_channels'' = Some (Obj (IntK c) ys) \<or>
           (getattr_opt layer ''out_channels'' = None \<and> c = n)"
  shows "(get_layer insp unknown = None \<longrightarrow> get_neuron_names insp unknown = Inr []) \<and>
         (get_layer insp layer_name = Some layer \<and> layer \<noteq> PyNone \<longrightarrow>
            get_neuron_names insp layer_name =
              Inr (map (\<lambda>i. (if isinstance layer Linear then ''neuron''
                             else if isinstance layer Conv2d then ''channel'' else ''unit'')
                            @ ''_'' @ str_nat i)
                       [0..<nat (if n = 0 then 0
                                 else if isinstance layer Linear then n
                                 else if isinstance layer Conv2d then c
                                 else min n 768)]))"
proof (intro conjI impI)
  assume "get_layer insp unknown = None"
  then show "get_neuron_names insp unknown = Inr []"
    by (simp add: get_neuron_names_def)
next
  assume l: "get_layer insp layer_name = Some layer \<and> layer \<noteq> PyNone"
  obtain zs where num: "num_neurons_of layer = Inr (Obj (IntK n) zs)"
    using num_neurons_of_found [OF size] by blast
  show "get_neuron_names insp layer_name =
              Inr (map (\<lambda>i. (if isinstance layer Linear then ''neuron''
                             else if isinstance layer Conv2d then ''channel'' else ''unit'')
                            @ ''_'' @ str_nat i)
                       [0..<nat (if n = 0 then 0
                                 else if isinstance layer Linear then n
                                 else if isinstance layer Conv2d then c
                                 else min n 768)])"
  proof (cases "n = 0")
    case True
    then show ?thesis
      using l num by (simp add: get_neuron_names_def)
  next
    case False
    then show ?thesis
      using l num channels
      by (auto simp: get_neuron_names_def unit_names_def)
  qed
qed

theorem get_neuron_names_units_witness:
  "get_layer insp_ex ''visual.nope'' = None \<and>
   get_neuron_names insp_ex ''visual.nope'' = Inr [] \<and>
   get_layer insp_ex ''visual.fc'' = Some fc_ex \<and> fc_ex \<noteq> PyNone \<and>
   get_neuron_names insp_ex ''visual.fc'' = Inr [''neuron_0'', ''neuron_1'', ''neuron_2'']"
proof -
  have s: "getattr_opt fc_ex ''out_features'' = Some (Obj (IntK 3) []) \<or>
           (getattr_opt fc_ex ''out_features'' = None \<and>
            getattr_opt fc_ex ''weight'' = Some (Obj (TensorK Param [3, 2] True ''cpu'') []) \<and>
            3 = (case [3, 2] of [] \<Rightarrow> 0 | d0 # ds \<Rightarrow> int d0)) \<or>
           (getattr_opt fc_ex ''out_features'' = None \<and> getattr_opt fc_ex ''weight'' = None \<and>
            (3::int) = 0)"
    by (simp add: fc_ex_def getattr_opt_def py_int_def)
  have ch: "isinstance fc_ex Conv2d \<longrightarrow>
           getattr_opt fc_ex ''out_channels'' = Some (Obj (IntK 3) []) \<or>
           (getattr_opt fc_ex ''out_channels'' = None \<and> (3::int) = 3)"
    by (simp add: fc_ex_def getattr_opt_def)
  have a: "get_layer insp_ex ''visual.nope'' = None"
    by code_simp
  have b: "get_layer insp_ex ''visual.fc'' = Some fc_ex \<and> fc_ex \<noteq> PyNone"
    by code_simp
  have n: "map (\<lambda>i. (if isinstance fc_ex Linear then ''neuron''
                     else if isinstance fc_ex Conv2d then ''channel'' else ''unit'')
                    @ ''_'' @ str_nat i)
               [0..<nat (if (3::int) = 0 then 0
                         else if isinstance fc_ex Linear then 3
                         else if isinstance fc_ex Conv2d then 3
                         else min 3 768)]
           = [''neuron_0'', ''neuron_1'', ''neuron_2'']"
    by code_simp
  from get_neuron_names_units [OF s ch, of insp_ex "''visual.nope''" "''visual.fc''"] a b n
  show ?thesis by simp
qed

text \<open>
  Claim C10 says that a call whose resolved layer is never executed by the forward pass
  does not fail: the activation defaults to 0.0 and an image is returned. The default
  is there, but \<^verbatim>\<open>torch.tensor(0.0)\<close> is not tracked by autograd, so
  \<^verbatim>\<open>loss.backward()\<close> raises in the first iteration: with at least one iteration the
  call ends in \<^verbatim>\<open>RuntimeError\<close>.
\<close>

theorem generate_image_unexecuted_layer:
  assumes "randn_image e seed image_size = Inr data" "adam_init e learning_rate = None"
    and "is_module (get_layer_by_name self layer_name)"
    and vis: "getattr_opt (model self) ''visual'' \<noteq> None"
    and idle: "\<forall>x. visual_forward e layer_name x = Inr None"
    and iters: "0 < num_iterations"
  shows "get_activation_value (hook_init neuron_idx) = Inr \<lparr>sc_value = Fin 0, sc_grad = False\<rparr> \<and>
         fst (generate_image e self hid layer_name neuron_idx image_size num_iterations
                learning_rate blur_every seed progress_callback) = Inl RuntimeError"
proof -
  let ?self1 = "self\<lparr>model := update_at (split_on CHR ''.'' layer_name) (add_hook hid)
                                  (model self)\<rparr>"
  have zero: "get_activation_value (hook_init neuron_idx)
                = Inr \<lparr>sc_value = Fin 0, sc_grad = False\<rparr>"
    by (simp add: get_activation_value_def hook_init_def)
  have v: "getattr_opt (model ?self1) ''visual'' \<noteq> None"
    using vis by (simp add: hasattr_installed)
  have "observe e ?self1 layer_name (hook_init neuron_idx) img
          = Inr (hook_init neuron_idx, \<lparr>sc_value = Fin 0, sc_grad = False\<rparr>)" for img
    using v idle zero by (auto simp: observe_def)
  then have "iteration_body e ?self1 layer_name num_iterations learning_rate blur_every
               progress_callback 0 (hook_init neuron_idx) img = Inl RuntimeError" for img
    by (simp add: iteration_body_def backward_def neg_scalar_def)
  then have "run_iterations e ?self1 layer_name num_iterations learning_rate blur_every
               progress_callback [0..<nat num_iterations] (hook_init neuron_idx) img
             = Inl RuntimeError" for img
    by (rule run_first_fails [OF iters])
  then show ?thesis
    using zero by (simp add: generate_image_run [OF assms(1-3)])
qed

theorem generate_image_unexecuted_layer_witness:
  "randn_image env_ex (Some 42) 2 = Inr (replicate 12 0) \<and>
   adam_init env_ex (1 / 100) = None \<and>
   is_module (get_layer_by_name vis_ex ''transformer'') \<and>
   getattr_opt (model vis_ex) ''visual'' \<noteq> None \<and>
   (0::int) < 1 \<and>
   fst (generate_image env_ex vis_ex 7 ''transformer'' (Some 0) 2 1 (1 / 100) 10 (Some 42) None)
     = Inl RuntimeError"
proof -
  have a: "randn_image env_ex (Some 42) 2 = Inr (replicate 12 0)"
    by (simp add: env_ex_def)
  have b: "adam_init env_ex (1 / 100) = None"
    by (simp add: env_ex_def)
  have c: "is_module (get_layer_by_name vis_ex ''transformer'')"
    by code_simp
  have d: "getattr_opt (model vis_ex) ''visual'' \<noteq> None"
    by code_simp
  have f: "\<forall>x. visual_forward env_ex ''transformer'' x = Inr None"
    by (simp add: env_ex_def)
  have g: "(0::int) < 1" by simp
  from generate_image_unexecuted_layer [OF a b c d f g,
      where neuron_idx = "Some 0" and hid = 7 and blur_every = 10 and progress_callback = None]
    a b c d g
  show ?thesis by blast
qed

end
